theory Spec2Isabelle
  imports Complex_Main "HOL-Library.Log_Nat" "HOL-Library.Word" "HOL-Library.Multiset"
begin

section \<open>Text and the string methods the converter calls\<close>

text \<open>
  A Python \<open>str\<close> is a sequence of Unicode code points, modelled as a list of natural
  numbers; a \<open>bytes\<close> object is a list of 8-bit words. The function \<open>u\<close> writes an
  ASCII literal as its code points.
\<close>

type_synonym ustr = "nat list"

type_synonym bytes = "8 word list"

definition u :: "string \<Rightarrow> ustr" where
  "u s = map of_char s"

text \<open>The exceptions that can leave the converter.\<close>

datatype py_error = UnicodeDecodeError | ValueError | IndexError | TypeError | LookupError | CsvError

text \<open>
  \<open>str.replace(old, new)\<close>: the occurrences of \<open>old\<close> are found from the left and do not
  overlap; an empty \<open>old\<close> matches before every character and at the end.
\<close>

function str_replace :: "ustr \<Rightarrow> ustr \<Rightarrow> ustr \<Rightarrow> ustr" where
  "str_replace old new [] = (if old = [] then new else [])"
| "str_replace old new (c # s) =
     (if old = [] then new @ c # str_replace old new s
      else if take (length old) (c # s) = old
        then new @ str_replace old new (drop (length old) (c # s))
      else c # str_replace old new s)"
  by pat_completeness auto
termination
  by (relation "measure (\<lambda>(old, new, s). length s)") auto

text \<open>
  \<open>str.count(sub)\<close> counts occurrences the same way; an empty \<open>sub\<close> is found
  \<open>len(s) + 1\<close> times.
\<close>

function str_count :: "ustr \<Rightarrow> ustr \<Rightarrow> nat" where
  "str_count sub [] = (if sub = [] then 1 else 0)"
| "str_count sub (c # s) =
     (if sub = [] then Suc (str_count sub s)
      else if take (length sub) (c # s) = sub
        then Suc (str_count sub (drop (length sub) (c # s)))
      else str_count sub s)"
  by pat_completeness auto
termination
  by (relation "measure (\<lambda>(sub, s). length s)") auto

text \<open>
  \<open>str.split(sep)\<close> for a separator that is not empty (Python raises \<open>ValueError\<close> on an
  empty one; the converter passes the literal comma and a delimiter it has made
  non-empty with \<open>or ","\<close>). The accumulator holds the current piece, reversed.
\<close>

function split_from :: "ustr \<Rightarrow> ustr \<Rightarrow> ustr \<Rightarrow> ustr list" where
  "split_from sep acc [] = [rev acc]"
| "split_from sep acc (c # s) =
     (if sep \<noteq> [] \<and> take (length sep) (c # s) = sep
        then rev acc # split_from sep [] (drop (length sep) (c # s))
      else split_from sep (c # acc) s)"
  by pat_completeness auto
termination
  by (relation "measure (\<lambda>(sep, acc, s). length s)") auto

definition str_split :: "ustr \<Rightarrow> ustr \<Rightarrow> ustr list" where
  "str_split sep s = split_from sep [] s"

fun str_join :: "ustr \<Rightarrow> ustr list \<Rightarrow> ustr" where
  "str_join sep [] = []"
| "str_join sep [x] = x"
| "str_join sep (x # y # xs) = x @ sep @ str_join sep (y # xs)"

definition startswith :: "'a list \<Rightarrow> 'a list \<Rightarrow> bool" where
  "startswith s p = (take (length p) s = p)"

definition endswith :: "'a list \<Rightarrow> 'a list \<Rightarrow> bool" where
  "endswith s p = (length p \<le> length s \<and> drop (length s - length p) s = p)"

text \<open>
  The characters for which \<open>str.isspace()\<close> holds; \<open>str.strip()\<close> without argument
  removes them from both ends. U+FEFF is not among them.
\<close>

definition isspace :: "nat \<Rightarrow> bool" where
  "isspace c =
     ((9 \<le> c \<and> c \<le> 13) \<or> (28 \<le> c \<and> c \<le> 32) \<or> c = 0x85 \<or> c = 0xA0
      \<or> c = 0x1680 \<or> (0x2000 \<le> c \<and> c \<le> 0x200A) \<or> c = 0x2028 \<or> c = 0x2029
      \<or> c = 0x202F \<or> c = 0x205F \<or> c = 0x3000)"

definition str_rstrip :: "ustr \<Rightarrow> ustr" where
  "str_rstrip s = rev (dropWhile isspace (rev s))"

definition str_strip :: "ustr \<Rightarrow> ustr" where
  "str_strip s = str_rstrip (dropWhile isspace s)"

text \<open>\<open>s.lstrip(chars)\<close> removes leading characters that occur in \<open>chars\<close>.\<close>

definition str_lstrip_chars :: "ustr \<Rightarrow> ustr \<Rightarrow> ustr" where
  "str_lstrip_chars chars s = dropWhile (\<lambda>c. c \<in> set chars) s"

text \<open>
  Decimal digits (general category Nd) come in runs of ten consecutive code points
  with the values 0 to 9 (the mathematical digits from U+1D7CE are five such runs in
  a row). The table is that of Unicode 14.0.0. \<open>int()\<close> and \<open>float()\<close> accept exactly
  these as digits.
\<close>

definition decimal_runs :: "(nat \<times> nat) list" where
  "decimal_runs =
     [(0x30, 10), (0x660, 10), (0x6F0, 10), (0x7C0, 10), (0x966, 10), (0x9E6, 10),
      (0xA66, 10), (0xAE6, 10), (0xB66, 10), (0xBE6, 10), (0xC66, 10), (0xCE6, 10),
      (0xD66, 10), (0xDE6, 10), (0xE50, 10), (0xED0, 10), (0xF20, 10), (0x1040, 10),
      (0x1090, 10), (0x17E0, 10), (0x1810, 10), (0x1946, 10), (0x19D0, 10), (0x1A80, 10),
      (0x1A90, 10), (0x1B50, 10), (0x1BB0, 10), (0x1C40, 10), (0x1C50, 10), (0xA620, 10),
      (0xA8D0, 10), (0xA900, 10), (0xA9D0, 10), (0xA9F0, 10), (0xAA50, 10), (0xABF0, 10),
      (0xFF10, 10), (0x104A0, 10), (0x10D30, 10), (0x11066, 10), (0x110F0, 10),
      (0x11136, 10), (0x111D0, 10), (0x112F0, 10), (0x11450, 10), (0x114D0, 10),
      (0x11650, 10), (0x116C0, 10), (0x11730, 10), (0x118E0, 10), (0x11950, 10),
      (0x11C50, 10), (0x11D50, 10), (0x11DA0, 10), (0x16A60, 10), (0x16AC0, 10),
      (0x16B50, 10), (0x1D7CE, 50), (0x1E140, 10), (0x1E2F0, 10), (0x1E950, 10),
      (0x1FBF0, 10)]"

definition decimal_value :: "nat \<Rightarrow> nat option" where
  "decimal_value c =
     map_option (\<lambda>(a, n). (c - a) mod 10)
       (find (\<lambda>(a, n). a \<le> c \<and> c < a + n) decimal_runs)"

text \<open>
  \<open>str.isdigit()\<close> also holds for the characters whose numeric type is Digit without
  being decimal: superscripts, subscripts, circled and other decorated digits. The
  ranges are inclusive.
\<close>

definition other_digit_ranges :: "(nat \<times> nat) list" where
  "other_digit_ranges =
     [(0xB2, 0xB3), (0xB9, 0xB9), (0x1369, 0x1371), (0x19DA, 0x19DA), (0x2070, 0x2070),
      (0x2074, 0x2079), (0x2080, 0x2089), (0x2460, 0x2468), (0x2474, 0x247C),
      (0x2488, 0x2490), (0x24EA, 0x24EA), (0x24F5, 0x24FD), (0x24FF, 0x24FF),
      (0x2776, 0x277E), (0x2780, 0x2788), (0x278A, 0x2792), (0x10A40, 0x10A43),
      (0x10E60, 0x10E68), (0x11052, 0x1105A), (0x1F100, 0x1F10A)]"

definition isdigit_cp :: "nat \<Rightarrow> bool" where
  "isdigit_cp c =
     (decimal_value c \<noteq> None \<or> list_ex (\<lambda>(a, b). a \<le> c \<and> c \<le> b) other_digit_ranges)"

definition str_isdigit :: "ustr \<Rightarrow> bool" where
  "str_isdigit s = (s \<noteq> [] \<and> list_all isdigit_cp s)"

text \<open>
  \<open>int(p)\<close> for a text \<open>p\<close> on which \<open>isdigit()\<close> holds (the only texts the converter
  converts): every character must be a decimal digit, and the text must not be longer
  than the interpreter's limit on integer text (4300 digits by default); otherwise
  \<open>ValueError\<close>.
\<close>

definition int_max_str_digits :: nat where
  "int_max_str_digits = 4300"

fun digits_value :: "nat \<Rightarrow> ustr \<Rightarrow> nat option" where
  "digits_value acc [] = Some acc"
| "digits_value acc (c # s) =
     (case decimal_value c of
        None \<Rightarrow> None
      | Some d \<Rightarrow> digits_value (10 * acc + d) s)"

definition int_of_digits :: "ustr \<Rightarrow> py_error + nat" where
  "int_of_digits p =
     (if int_max_str_digits < length p then Inl ValueError
      else case digits_value 0 p of
             None \<Rightarrow> Inl ValueError
           | Some n \<Rightarrow> Inr n)"

text \<open>\<open>str(n)\<close> for a natural number.\<close>

function str_of_nat :: "nat \<Rightarrow> ustr" where
  "str_of_nat n = (if n < 10 then [48 + n] else str_of_nat (n div 10) @ [48 + n mod 10])"
  by pat_completeness auto
termination
  by (relation "measure (\<lambda>n. n)") auto

text \<open>
  \<open>str.lower()\<close> and \<open>str.casefold()\<close> map the letters A to Z to a to z on an ASCII text.
  On a text with other characters they follow the Unicode case tables, which are not
  part of the converter: the record \<open>pylib\<close> carries them, and the csv module, as
  parameters of the model. Every theorem below holds for every such library.
\<close>

definition ascii_lower :: "nat \<Rightarrow> nat" where
  "ascii_lower c = (if 65 \<le> c \<and> c \<le> 90 then c + 32 else c)"

definition is_ascii :: "ustr \<Rightarrow> bool" where
  "is_ascii s = list_all (\<lambda>c. c < 128) s"

section \<open>Cell escaping\<close>

text \<open>
  \<^verbatim>\<open>
  def _escape_md_cell(value: str) -> str:
      return (
          value.replace("\x00", "")
          .replace("|", "\\|")
          .replace("\r\n", " ")
          .replace("\n", " ")
          .replace("\r", " ")
      )
  \<close>
\<close>

definition escape_md_cell :: "ustr \<Rightarrow> ustr" where
  "escape_md_cell v =
     str_replace [13] [32]
       (str_replace [10] [32]
         (str_replace [13, 10] [32]
           (str_replace [124] [92, 124]
             (str_replace [0] [] v))))"


definition str_lower_ascii :: "ustr \<Rightarrow> ustr" where
  "str_lower_ascii s = map ascii_lower s"

section \<open>The library the converter runs on\<close>

text \<open>
  The csv module's dialect attributes that the reader uses. The class \<open>csv.excel\<close> is
  one shared object of the interpreter; \<open>excel_default\<close> is its value when the module
  is first imported.
\<close>

datatype quoting = QUOTE_MINIMAL | QUOTE_NONE

record dialect =
  dl_delimiter :: ustr
  dl_quotechar :: ustr
  dl_quoting :: quoting
  dl_doublequote :: bool
  dl_skipinitialspace :: bool

definition excel_default :: dialect where
  "excel_default =
     \<lparr>dl_delimiter = [44], dl_quotechar = [34], dl_quoting = QUOTE_MINIMAL,
      dl_doublequote = True, dl_skipinitialspace = False\<rparr>"

text \<open>
  What the converter takes from the interpreter and is not in its source:
  \<^item> \<open>lower_beyond_ascii\<close>, \<open>casefold_beyond_ascii\<close>: \<open>str.lower()\<close> and \<open>str.casefold()\<close>
    on a text that has a character outside ASCII;
  \<^item> \<open>codec_decode_replace enc raw\<close>: \<open>raw.decode(enc, errors="replace")\<close> for a codec
    name the converter does not know itself;
  \<^item> \<open>sniff sample\<close>: \<open>csv.Sniffer().sniff(sample, delimiters=",;\t|")\<close>, a fresh
    dialect, or \<open>None\<close> for \<open>csv.Error\<close>;
  \<^item> \<open>csv_reader d lines\<close>: \<open>list(csv.reader(lines, d))\<close> for the lines of an iterable,
    \<open>Inl CsvError\<close> for \<open>csv.Error\<close> (and \<open>Inl TypeError\<close> for a dialect the reader
    refuses).
\<close>

record pylib =
  lower_beyond_ascii :: "ustr \<Rightarrow> ustr"
  casefold_beyond_ascii :: "ustr \<Rightarrow> ustr"
  codec_decode_replace :: "ustr \<Rightarrow> bytes \<Rightarrow> py_error + ustr"
  sniff :: "ustr \<Rightarrow> dialect option"
  csv_reader :: "dialect \<Rightarrow> ustr list \<Rightarrow> py_error + ustr list list"

definition str_lower :: "pylib \<Rightarrow> ustr \<Rightarrow> ustr" where
  "str_lower L s = (if is_ascii s then str_lower_ascii s else lower_beyond_ascii L s)"

definition str_casefold :: "pylib \<Rightarrow> ustr \<Rightarrow> ustr" where
  "str_casefold L s = (if is_ascii s then str_lower_ascii s else casefold_beyond_ascii L s)"

section \<open>Codecs\<close>

text \<open>
  The three codecs \<open>decode_csv_bytes\<close> names. A strict decoder returns \<open>None\<close> where
  Python raises \<open>UnicodeDecodeError\<close>.
\<close>

subsection \<open>UTF-8\<close>

text \<open>
  One step of the UTF-8 decoder at a lead byte \<open>b0\<close> followed by \<open>rest\<close>: either a code
  point, or an invalid sequence; the number is how many bytes after the lead byte the
  step takes with it. Overlong forms, surrogates and values above U+10FFFF are invalid
  at their lead byte; a sequence cut short by the end of the buffer is invalid as a whole.
\<close>

datatype utf8_step = Decoded nat nat | Invalid nat

definition cont_byte :: "8 word \<Rightarrow> bool" where
  "cont_byte b = (0x80 \<le> b \<and> b < 0xC0)"

definition utf8_next :: "8 word \<Rightarrow> bytes \<Rightarrow> utf8_step" where
  "utf8_next b0 rest =
     (if b0 < 0x80 then Decoded (unat b0) 0
      else if b0 < 0xC2 then Invalid 0
      else if b0 < 0xE0 then
        (case rest of
           [] \<Rightarrow> Invalid 0
         | b1 # _ \<Rightarrow>
             if cont_byte b1 then Decoded ((unat b0 - 0xC0) * 64 + (unat b1 - 0x80)) 1
             else Invalid 0)
      else if b0 < 0xF0 then
        (case rest of
           [] \<Rightarrow> Invalid 0
         | b1 # rest1 \<Rightarrow>
             if \<not> cont_byte b1 \<or> (if b1 < 0xA0 then b0 = 0xE0 else b0 = 0xED) then Invalid 0
             else (case rest1 of
                     [] \<Rightarrow> Invalid 1
                   | b2 # _ \<Rightarrow>
                       if cont_byte b2
                       then Decoded ((unat b0 - 0xE0) * 4096 + (unat b1 - 0x80) * 64
                                     + (unat b2 - 0x80)) 2
                       else Invalid 1))
      else if b0 < 0xF5 then
        (case rest of
           [] \<Rightarrow> Invalid 0
         | b1 # rest1 \<Rightarrow>
             if \<not> cont_byte b1 \<or> (if b1 < 0x90 then b0 = 0xF0 else b0 = 0xF4) then Invalid 0
             else (case rest1 of
                     [] \<Rightarrow> Invalid 1
                   | b2 # rest2 \<Rightarrow>
                       if \<not> cont_byte b2 then Invalid 1
                       else (case rest2 of
                               [] \<Rightarrow> Invalid 2
                             | b3 # _ \<Rightarrow>
                                 if cont_byte b3
                                 then Decoded ((unat b0 - 0xF0) * 262144
                                               + (unat b1 - 0x80) * 4096
                                               + (unat b2 - 0x80) * 64 + (unat b3 - 0x80)) 3
                                 else Invalid 2)))
      else Invalid 0)"

text \<open>\<open>raw.decode("utf-8")\<close>: the first invalid sequence raises.\<close>

function utf8_strict :: "bytes \<Rightarrow> ustr option" where
  "utf8_strict [] = Some []"
| "utf8_strict (b # bs) =
     (case utf8_next b bs of
        Decoded cp n \<Rightarrow> map_option ((#) cp) (utf8_strict (drop n bs))
      | Invalid n \<Rightarrow> None)"
  by pat_completeness auto
termination
  by (relation "measure length") auto

text \<open>\<open>raw.decode("utf-8", errors="replace")\<close>: each invalid sequence becomes U+FFFD.\<close>

function utf8_lossy :: "bytes \<Rightarrow> ustr" where
  "utf8_lossy [] = []"
| "utf8_lossy (b # bs) =
     (case utf8_next b bs of
        Decoded cp n \<Rightarrow> cp # utf8_lossy (drop n bs)
      | Invalid n \<Rightarrow> 0xFFFD # utf8_lossy (drop n bs))"
  by pat_completeness auto
termination
  by (relation "measure length") auto

text \<open>\<open>raw.decode("utf-8-sig")\<close>: one leading byte-order mark EF BB BF is skipped.\<close>

definition utf8_sig :: "bytes \<Rightarrow> ustr option" where
  "utf8_sig raw = utf8_strict (if startswith raw [0xEF, 0xBB, 0xBF] then drop 3 raw else raw)"

subsection \<open>UTF-16\<close>

text \<open>
  \<open>raw.decode("utf-16")\<close>: a leading FF FE selects little-endian and FE FF big-endian
  units, and is skipped; without a mark the units are taken in the byte order of the
  machine, little-endian here. An odd number of bytes and an unpaired surrogate raise.
\<close>

fun utf16_units :: "bool \<Rightarrow> bytes \<Rightarrow> nat list option" where
  "utf16_units le [] = Some []"
| "utf16_units le [b] = None"
| "utf16_units le (b0 # b1 # bs) =
     map_option ((#) (if le then unat b0 + 256 * unat b1 else 256 * unat b0 + unat b1))
       (utf16_units le bs)"

fun utf16_pairs :: "nat list \<Rightarrow> ustr option" where
  "utf16_pairs [] = Some []"
| "utf16_pairs [w] = (if 0xD800 \<le> w \<and> w < 0xE000 then None else Some [w])"
| "utf16_pairs (w # w2 # ws) =
     (if 0xD800 \<le> w \<and> w < 0xDC00 then
        (if 0xDC00 \<le> w2 \<and> w2 < 0xE000
         then map_option ((#) (0x10000 + (w - 0xD800) * 1024 + (w2 - 0xDC00))) (utf16_pairs ws)
         else None)
      else if 0xDC00 \<le> w \<and> w < 0xE000 then None
      else map_option ((#) w) (utf16_pairs (w2 # ws)))"

definition utf16 :: "bytes \<Rightarrow> ustr option" where
  "utf16 raw =
     (let units =
            (if startswith raw [0xFF, 0xFE] then utf16_units True (drop 2 raw)
             else if startswith raw [0xFE, 0xFF] then utf16_units False (drop 2 raw)
             else utf16_units True raw)
      in case units of None \<Rightarrow> None | Some ws \<Rightarrow> utf16_pairs ws)"

subsection \<open>Windows-1250\<close>

text \<open>
  \<open>raw.decode("cp1250")\<close>: bytes below 0x80 are ASCII; the table gives the other half,
  where 0x81, 0x83, 0x88, 0x90 and 0x98 are undefined and raise.
\<close>

definition cp1250_high :: "nat option list" where
  "cp1250_high =
     [
      Some 0x20AC, None, Some 0x201A, None, Some 0x201E, Some 0x2026,
      Some 0x2020, Some 0x2021, None, Some 0x2030, Some 0x0160, Some 0x2039,
      Some 0x015A, Some 0x0164, Some 0x017D, Some 0x0179, None, Some 0x2018,
      Some 0x2019, Some 0x201C, Some 0x201D, Some 0x2022, Some 0x2013, Some 0x2014,
      None, Some 0x2122, Some 0x0161, Some 0x203A, Some 0x015B, Some 0x0165,
      Some 0x017E, Some 0x017A, Some 0x00A0, Some 0x02C7, Some 0x02D8, Some 0x0141,
      Some 0x00A4, Some 0x0104, Some 0x00A6, Some 0x00A7, Some 0x00A8, Some 0x00A9,
      Some 0x015E, Some 0x00AB, Some 0x00AC, Some 0x00AD, Some 0x00AE, Some 0x017B,
      Some 0x00B0, Some 0x00B1, Some 0x02DB, Some 0x0142, Some 0x00B4, Some 0x00B5,
      Some 0x00B6, Some 0x00B7, Some 0x00B8, Some 0x0105, Some 0x015F, Some 0x00BB,
      Some 0x013D, Some 0x02DD, Some 0x013E, Some 0x017C, Some 0x0154, Some 0x00C1,
      Some 0x00C2, Some 0x0102, Some 0x00C4, Some 0x0139, Some 0x0106, Some 0x00C7,
      Some 0x010C, Some 0x00C9, Some 0x0118, Some 0x00CB, Some 0x011A, Some 0x00CD,
      Some 0x00CE, Some 0x010E, Some 0x0110, Some 0x0143, Some 0x0147, Some 0x00D3,
      Some 0x00D4, Some 0x0150, Some 0x00D6, Some 0x00D7, Some 0x0158, Some 0x016E,
      Some 0x00DA, Some 0x0170, Some 0x00DC, Some 0x00DD, Some 0x0162, Some 0x00DF,
      Some 0x0155, Some 0x00E1, Some 0x00E2, Some 0x0103, Some 0x00E4, Some 0x013A,
      Some 0x0107, Some 0x00E7, Some 0x010D, Some 0x00E9, Some 0x0119, Some 0x00EB,
      Some 0x011B, Some 0x00ED, Some 0x00EE, Some 0x010F, Some 0x0111, Some 0x0144,
      Some 0x0148, Some 0x00F3, Some 0x00F4, Some 0x0151, Some 0x00F6, Some 0x00F7,
      Some 0x0159, Some 0x016F, Some 0x00FA, Some 0x0171, Some 0x00FC, Some 0x00FD,
      Some 0x0163, Some 0x02D9
     ]"

definition cp1250_char :: "8 word \<Rightarrow> nat option" where
  "cp1250_char b = (if b < 0x80 then Some (unat b) else cp1250_high ! (unat b - 128))"

fun cp1250 :: "bytes \<Rightarrow> ustr option" where
  "cp1250 [] = Some []"
| "cp1250 (b # bs) =
     (case cp1250_char b of
        None \<Rightarrow> None
      | Some c \<Rightarrow> map_option ((#) c) (cp1250 bs))"

section \<open>Decoding the upload\<close>

text \<open>
  \<^verbatim>\<open>
  def decode_csv_bytes(raw: bytes) -> str:
      if raw.startswith(b"\xff\xfe") or raw.startswith(b"\xfe\xff"):
          return raw.decode("utf-16")
      try:
          text = raw.decode("utf-8-sig")
          if "\x00" in text:
              return raw.decode("utf-16")
          return text
      except UnicodeDecodeError:
          pass
      try:
          return raw.decode("cp1250")
      except UnicodeDecodeError:
          return raw.decode("utf-8", errors="replace")
  \<close>
  The decoding under the first test is outside every \<open>try\<close>; the one for a text with
  NUL is inside the \<open>try\<close>, so its failure leads to the cp1250 step.
\<close>

definition raise_decode :: "ustr option \<Rightarrow> py_error + ustr" where
  "raise_decode r = (case r of None \<Rightarrow> Inl UnicodeDecodeError | Some t \<Rightarrow> Inr t)"

definition central_european_fallback :: "bytes \<Rightarrow> ustr" where
  "central_european_fallback raw =
     (case cp1250 raw of Some t \<Rightarrow> t | None \<Rightarrow> utf8_lossy raw)"

definition decode_csv_bytes :: "bytes \<Rightarrow> py_error + ustr" where
  "decode_csv_bytes raw =
     (if startswith raw [0xFF, 0xFE] \<or> startswith raw [0xFE, 0xFF]
      then raise_decode (utf16 raw)
      else case utf8_sig raw of
             Some text \<Rightarrow>
               (if 0 \<in> set text
                then (case utf16 raw of
                        Some t \<Rightarrow> Inr t
                      | None \<Rightarrow> Inr (central_european_fallback raw))
                else Inr text)
           | None \<Rightarrow> Inr (central_european_fallback raw))"

text \<open>
  \<^verbatim>\<open>
  def decode_csv_bytes_with_encoding(raw: bytes, encoding: str = "auto") -> str:
      enc = (encoding or "auto").strip().lower()
      if enc == "auto":
          return decode_csv_bytes(raw)
      if enc in {"utf-16", "utf16"}:
          return raw.decode("utf-16")
      if enc in {"utf-8", "utf8"}:
          return raw.decode("utf-8-sig")
      if enc in {"cp1250", "windows-1250", "win1250"}:
          return raw.decode("cp1250")
      return raw.decode(enc, errors="replace")
  \<close>
\<close>

definition decode_csv_bytes_with_encoding :: "pylib \<Rightarrow> bytes \<Rightarrow> ustr \<Rightarrow> py_error + ustr" where
  "decode_csv_bytes_with_encoding L raw encoding =
     (let enc = str_lower L (str_strip (if encoding = [] then u ''auto'' else encoding))
      in if enc = u ''auto'' then decode_csv_bytes raw
         else if enc = u ''utf-16'' \<or> enc = u ''utf16'' then raise_decode (utf16 raw)
         else if enc = u ''utf-8'' \<or> enc = u ''utf8'' then raise_decode (utf8_sig raw)
         else if enc = u ''cp1250'' \<or> enc = u ''windows-1250'' \<or> enc = u ''win1250''
           then raise_decode (cp1250 raw)
         else codec_decode_replace L enc raw)"

text \<open>
  The UTF-8 encoding of a text, to state what a valid UTF-8 buffer is: the buffer
  \<open>t.encode("utf-8")\<close> of a text \<open>t\<close> of Unicode scalar values (code points up to
  U+10FFFF that are not surrogates).
\<close>

definition scalar :: "nat \<Rightarrow> bool" where
  "scalar c = (c < 0x110000 \<and> \<not> (0xD800 \<le> c \<and> c < 0xE000))"

definition utf8_encode_cp :: "nat \<Rightarrow> bytes" where
  "utf8_encode_cp c =
     (if c < 0x80 then [of_nat c]
      else if c < 0x800 then [of_nat (0xC0 + c div 64), of_nat (0x80 + c mod 64)]
      else if c < 0x10000
        then [of_nat (0xE0 + c div 4096), of_nat (0x80 + c div 64 mod 64),
              of_nat (0x80 + c mod 64)]
      else [of_nat (0xF0 + c div 262144), of_nat (0x80 + c div 4096 mod 64),
            of_nat (0x80 + c div 64 mod 64), of_nat (0x80 + c mod 64)])"

definition utf8_encode :: "ustr \<Rightarrow> bytes" where
  "utf8_encode t = concat (map utf8_encode_cp t)"

section \<open>Options\<close>

text \<open>
  The two frozen dataclasses. The field \<open>type\<close> of \<open>SortKey\<close> is \<open>sort_type\<close> here.
\<close>

record csv_parse_options =
  delimiter :: ustr
  has_header :: bool
  skip_lines :: int
  limit_lines :: "int option"
  quote_mode :: ustr
  quotechar :: ustr

definition default_parse_options :: csv_parse_options where
  "default_parse_options =
     \<lparr>delimiter = u ''auto'', has_header = True, skip_lines = 0, limit_lines = None,
      quote_mode = u ''standard'', quotechar = [34]\<rparr>"

record sort_key =
  field_1based :: int
  sort_type :: ustr
  direction :: ustr
  ignore_case :: bool

section \<open>Headers and positions\<close>

text \<open>
  \<^verbatim>\<open>
  def _clean_header(h: str) -> str:
      return h.replace("\x00", "").lstrip("\ufeff").strip()
  \<close>
\<close>

definition clean_header :: "ustr \<Rightarrow> ustr" where
  "clean_header h = str_strip (str_lstrip_chars [0xFEFF] (str_replace [0] [] h))"

text \<open>
  \<^verbatim>\<open>
  def _parse_positions(positions: str | None) -> list[int] | None:
      if not positions:
          return None
      parts = [p.strip() for p in positions.split(",") if p.strip()]
      out: list[int] = []
      for p in parts:
          if not p.isdigit():
              continue
          out.append(int(p))
      return out or None
  \<close>
  The loop stops at the first \<open>int(p)\<close> that raises.
\<close>

fun positions_loop :: "ustr list \<Rightarrow> py_error + nat list" where
  "positions_loop [] = Inr []"
| "positions_loop (p # ps) =
     (if \<not> str_isdigit p then positions_loop ps
      else case int_of_digits p of
             Inl e \<Rightarrow> Inl e
           | Inr n \<Rightarrow>
               (case positions_loop ps of
                  Inl e \<Rightarrow> Inl e
                | Inr out \<Rightarrow> Inr (n # out)))"

definition parse_positions :: "ustr option \<Rightarrow> py_error + nat list option" where
  "parse_positions positions =
     (case positions of
        None \<Rightarrow> Inr None
      | Some s \<Rightarrow>
          if s = [] then Inr None
          else let parts = filter (\<lambda>p. p \<noteq> []) (map str_strip (str_split [44] s))
               in case positions_loop parts of
                    Inl e \<Rightarrow> Inl e
                  | Inr out \<Rightarrow> Inr (if out = [] then None else Some out))"

text \<open>
  \<^verbatim>\<open>
  def _apply_positions(headers, rows, positions_1based):
      if not positions_1based:
          return headers, rows
      idxs = [p - 1 for p in positions_1based if p > 0]
      idxs = [i for i in idxs if i < len(headers)]
      if not idxs:
          return headers, rows
      new_headers = [headers[i] for i in idxs]
      new_rows = []
      for r in rows:
          new_rows.append([r[i] if i < len(r) else "" for i in idxs])
      return new_headers, new_rows
  \<close>
\<close>

definition apply_positions ::
  "ustr list \<Rightarrow> ustr list list \<Rightarrow> nat list option \<Rightarrow> ustr list \<times> ustr list list" where
  "apply_positions headers rows positions_1based =
     (case positions_1based of
        None \<Rightarrow> (headers, rows)
      | Some ps \<Rightarrow>
          if ps = [] then (headers, rows)
          else let idxs = filter (\<lambda>i. i < length headers)
                            (map (\<lambda>p. p - 1) (filter (\<lambda>p. 0 < p) ps))
               in if idxs = [] then (headers, rows)
                  else (map (\<lambda>i. headers ! i) idxs,
                        map (\<lambda>r. map (\<lambda>i. if i < length r then r ! i else []) idxs) rows))"

section \<open>Parsing\<close>

text \<open>
  The lines a text stream opened with \<open>newline=""\<close> yields (each keeps its line feed; the
  text has no carriage return left when the converter reads it), and \<open>str.splitlines()\<close>,
  which ends a line at every Unicode line boundary and keeps none of them.
\<close>

fun stream_lines_from :: "ustr \<Rightarrow> ustr \<Rightarrow> ustr list" where
  "stream_lines_from acc [] = (if acc = [] then [] else [rev acc])"
| "stream_lines_from acc (c # s) =
     (if c = 10 then rev (c # acc) # stream_lines_from [] s
      else stream_lines_from (c # acc) s)"

definition stream_lines :: "ustr \<Rightarrow> ustr list" where
  "stream_lines s = stream_lines_from [] s"

definition line_boundary :: "nat \<Rightarrow> bool" where
  "line_boundary c =
     ((10 \<le> c \<and> c \<le> 13) \<or> (0x1C \<le> c \<and> c \<le> 0x1E) \<or> c = 0x85 \<or> c = 0x2028 \<or> c = 0x2029)"

fun splitlines_from :: "ustr \<Rightarrow> ustr \<Rightarrow> ustr list" where
  "splitlines_from acc [] = (if acc = [] then [] else [rev acc])"
| "splitlines_from acc [c] = (if line_boundary c then [rev acc] else [rev (c # acc)])"
| "splitlines_from acc (c # d # s) =
     (if c = 13 \<and> d = 10 then rev acc # splitlines_from [] s
      else if line_boundary c then rev acc # splitlines_from [] (d # s)
      else splitlines_from (c # acc) (d # s))"

definition str_splitlines :: "ustr \<Rightarrow> ustr list" where
  "str_splitlines s = splitlines_from [] s"

text \<open>
  The first part of \<open>_parse_csv\<close>: which dialect the reader gets, and what the shared
  class \<open>csv.excel\<close> holds afterwards.
  \<^verbatim>\<open>
      dialect: csv.Dialect = csv.excel
      delim = (opts.delimiter or "auto")
      if delim == "tab":
          delim = "\t"
      if delim == "pipe":
          delim = "|"
      if delim != "auto":
          # create a dialect-ish object
          dialect = csv.excel
          dialect.delimiter = delim
      else:
          try:
              dialect = csv.Sniffer().sniff(csv_text[:4096], delimiters=",;\t|")
          except csv.Error:
              pass
      quotechar = (opts.quotechar or '"')[:1]
      quoting = csv.QUOTE_MINIMAL
      if opts.quote_mode == "no_quotes":
          quoting = csv.QUOTE_NONE
      try:
          dialect.quotechar = quotechar
          dialect.quoting = quoting
          dialect.doublequote = True
      except Exception:
          pass
  \<close>
  \<open>dialect = csv.excel\<close> binds the class itself, so the assignments to its attributes
  change \<open>csv.excel\<close> for every later call; a sniffed dialect is a new class. The result
  is the dialect the reader is given and the new value of \<open>csv.excel\<close>.
\<close>

definition resolve_delimiter :: "ustr \<Rightarrow> ustr" where
  "resolve_delimiter d =
     (let d0 = (if d = [] then u ''auto'' else d);
          d1 = (if d0 = u ''tab'' then [9] else d0)
      in if d1 = u ''pipe'' then [124] else d1)"

definition set_quoting :: "csv_parse_options \<Rightarrow> dialect \<Rightarrow> dialect" where
  "set_quoting opts d =
     d\<lparr>dl_quotechar := take 1 (if quotechar opts = [] then [34] else quotechar opts),
       dl_quoting := (if quote_mode opts = u ''no_quotes'' then QUOTE_NONE else QUOTE_MINIMAL),
       dl_doublequote := True\<rparr>"

definition choose_dialect ::
  "pylib \<Rightarrow> dialect \<Rightarrow> ustr \<Rightarrow> csv_parse_options \<Rightarrow> dialect \<times> dialect" where
  "choose_dialect L excel csv_text opts =
     (let delim = resolve_delimiter (delimiter opts)
      in if delim \<noteq> u ''auto''
         then (let e = set_quoting opts (excel\<lparr>dl_delimiter := delim\<rparr>) in (e, e))
         else case sniff L (take 4096 csv_text) of
                Some d \<Rightarrow> (set_quoting opts d, excel)
              | None \<Rightarrow> (let e = set_quoting opts excel in (e, e)))"

text \<open>
  The last tier of the tokenizer:
  \<^verbatim>\<open>
      lines = [ln for ln in normalized.split("\n") if ln != ""]
      first = lines[0] if lines else ""
      candidates = [getattr(dialect, "delimiter", ","), ";", ",", "\t", "|"]
      delim = max(candidates, key=lambda d: first.count(d) if d else -1) or ","
      reader = [ln.split(delim) for ln in lines]
  \<close>
  \<open>max\<close> returns the first of the candidates with the largest key.
\<close>

fun first_max :: "('a \<Rightarrow> int) \<Rightarrow> 'a \<Rightarrow> 'a list \<Rightarrow> 'a" where
  "first_max key best [] = best"
| "first_max key best (x # xs) =
     (if key best < key x then first_max key x xs else first_max key best xs)"

definition naive_rows :: "dialect \<Rightarrow> ustr \<Rightarrow> ustr list list" where
  "naive_rows d normalized =
     (let lines = filter (\<lambda>ln. ln \<noteq> []) (str_split [10] normalized);
          first = (case lines of [] \<Rightarrow> [] | l # _ \<Rightarrow> l);
          best = first_max (\<lambda>c. if c \<noteq> [] then int (str_count c first) else - 1)
                   (dl_delimiter d) [[59], [44], [9], [124]];
          delim = (if best = [] then [44] else best)
      in map (str_split delim) lines)"

text \<open>
  The three tiers: the whole text as one stream, then its physical lines, then the naive
  split. Only \<open>csv.Error\<close> leads to the next tier; any other exception leaves the function.
\<close>

definition tokenize :: "pylib \<Rightarrow> dialect \<Rightarrow> ustr \<Rightarrow> py_error + ustr list list" where
  "tokenize L d normalized =
     (case csv_reader L d (stream_lines normalized) of
        Inr rows \<Rightarrow> Inr rows
      | Inl e \<Rightarrow>
          if e \<noteq> CsvError then Inl e
          else (case csv_reader L d (str_splitlines normalized) of
                  Inr rows \<Rightarrow> Inr rows
                | Inl e' \<Rightarrow> if e' \<noteq> CsvError then Inl e' else Inr (naive_rows d normalized)))"

text \<open>
  \<^verbatim>\<open>
      skip = max(0, int(opts.skip_lines or 0))
      if skip:
          reader = reader[skip:]
      if opts.limit_lines is not None:
          lim = max(0, int(opts.limit_lines))
          reader = reader[:lim]
  \<close>
\<close>

definition skip_limit :: "csv_parse_options \<Rightarrow> 'a list \<Rightarrow> 'a list" where
  "skip_limit opts reader =
     (let skipped = drop (nat (max 0 (skip_lines opts))) reader
      in case limit_lines opts of
           None \<Rightarrow> skipped
         | Some l \<Rightarrow> take (nat (max 0 l)) skipped)"

text \<open>
  \<^verbatim>\<open>
      if not reader:
          return [], []
      if opts.has_header:
          headers = [_clean_header(h) for h in reader[0]]
          rows = [list(r) for r in reader[1:]]
      else:
          width = max((len(r) for r in reader), default=0)
          headers = [f"Field {i+1}" for i in range(width)]
          rows = [list(r) for r in reader]
      return headers, rows
  \<close>
\<close>

definition split_header :: "bool \<Rightarrow> ustr list list \<Rightarrow> ustr list \<times> ustr list list" where
  "split_header with_header reader =
     (case reader of
        [] \<Rightarrow> ([], [])
      | first # rest \<Rightarrow>
          if with_header then (map clean_header first, rest)
          else (let width = fold max (map length reader) 0
                in (map (\<lambda>i. u ''Field '' @ str_of_nat (i + 1)) [0..<width], reader)))"

text \<open>
  \<open>_parse_csv\<close> as a whole: the result, or the exception that leaves it, and the value
  of \<open>csv.excel\<close> after the call.
\<close>

definition parse_csv ::
  "pylib \<Rightarrow> dialect \<Rightarrow> ustr \<Rightarrow> csv_parse_options
     \<Rightarrow> (py_error + ustr list \<times> ustr list list) \<times> dialect" where
  "parse_csv L excel csv_text opts =
     (let (d, excel') = choose_dialect L excel csv_text opts;
          normalized = str_replace [13] [10] (str_replace [13, 10] [10] csv_text)
      in (case tokenize L d normalized of
            Inl e \<Rightarrow> Inl e
          | Inr reader \<Rightarrow> Inr (split_header (has_header opts) (skip_limit opts reader)),
          excel'))"

text \<open>
  The cleaning of a header label as the specification words it: a stray byte-order mark
  and the surrounding white space are stripped.
\<close>

definition strip_mark_and_space :: "ustr \<Rightarrow> ustr" where
  "strip_mark_and_space h = str_strip (str_lstrip_chars [0xFEFF] h)"

text \<open>
  A library for texts without quote characters, whose csv reader does no more than drop
  the line feed of each line and cut the line at the delimiter, and whose sniffer finds
  no delimiter. It instantiates the statements below that speak of any library.
\<close>

definition plain_reader :: "dialect \<Rightarrow> ustr list \<Rightarrow> py_error + ustr list list" where
  "plain_reader d lines =
     Inr (map (\<lambda>ln. str_split (dl_delimiter d) (filter (\<lambda>c. c \<noteq> 10) ln)) lines)"

definition plain_lib :: pylib where
  "plain_lib =
     \<lparr>lower_beyond_ascii = id, casefold_beyond_ascii = id,
      codec_decode_replace = (\<lambda>enc raw. Inl LookupError),
      sniff = (\<lambda>sample. None), csv_reader = plain_reader\<rparr>"

text \<open>The text of two lines \<open>a;b\<close> and \<open>c\<close>, and the options with the delimiter \<open>;\<close>.\<close>

definition two_lines :: ustr where
  "two_lines = u ''a;b'' @ [10] @ u ''c'' @ [10]"

definition semicolon_options :: csv_parse_options where
  "semicolon_options = default_parse_options\<lparr>delimiter := [59]\<rparr>"

section \<open>Floating-point keys\<close>

text \<open>
  A Python \<open>float\<close> is an IEEE 754 binary64 value. The model keeps what the order of two
  keys depends on: not-a-number, the two infinities, and the exact rational value of a
  finite number (the two zeros are one value, as they are equal in Python).
\<close>

datatype pyfloat = NaN | NegInf | Finite rat | PosInf

text \<open>The operator \<open><\<close> on floats, the only comparison the sort uses.\<close>

definition float_lt :: "pyfloat \<Rightarrow> pyfloat \<Rightarrow> bool" where
  "float_lt a b =
     (case a of
        NaN \<Rightarrow> False
      | NegInf \<Rightarrow> (case b of NaN \<Rightarrow> False | NegInf \<Rightarrow> False | _ \<Rightarrow> True)
      | Finite x \<Rightarrow> (case b of Finite y \<Rightarrow> x < y | PosInf \<Rightarrow> True | _ \<Rightarrow> False)
      | PosInf \<Rightarrow> False)"

text \<open>
  Rounding a positive rational to the nearest binary64 value, ties to even: 53
  significant bits, steps of \<open>2^-1074\<close> below \<open>2^-1022\<close>, infinity from \<open>2^1024\<close> on.
\<close>

definition pow2 :: "int \<Rightarrow> rat" where
  "pow2 e = (if 0 \<le> e then 2 ^ nat e else 1 / 2 ^ nat (- e))"

definition pow10 :: "int \<Rightarrow> rat" where
  "pow10 e = (if 0 \<le> e then 10 ^ nat e else 1 / 10 ^ nat (- e))"

definition round_even :: "rat \<Rightarrow> int" where
  "round_even r =
     (let f = \<lfloor>r\<rfloor>; d = r - of_int f
      in if d < 1 / 2 then f
         else if 1 / 2 < d then f + 1
         else if even f then f else f + 1)"

definition ilog2 :: "rat \<Rightarrow> int" where
  "ilog2 q =
     (let (a, b) = quotient_of q; d = bitlen a - bitlen b
      in if pow2 d \<le> q then d else d - 1)"

definition to_double :: "rat \<Rightarrow> pyfloat" where
  "to_double q =
     (if q = 0 then Finite 0
      else let e = max (ilog2 q) (- 1022);
               quantum = pow2 (e - 52);
               r = of_int (round_even (q / quantum)) * quantum
           in if pow2 1024 \<le> r then PosInf else Finite r)"

definition float_neg :: "pyfloat \<Rightarrow> pyfloat" where
  "float_neg x =
     (case x of NaN \<Rightarrow> NaN | NegInf \<Rightarrow> PosInf | Finite r \<Rightarrow> Finite (- r) | PosInf \<Rightarrow> NegInf)"

text \<open>
  \<open>float(s)\<close> for a text. Decimal digits of any script become ASCII digits and Unicode
  white space an ASCII space; any other character beyond ASCII ends the text with a
  question mark. White space is dropped from both ends. An underscore is allowed only
  between two digits. What remains is an optional sign followed by \<open>inf\<close>, \<open>infinity\<close> or
  \<open>nan\<close> in any case, or by a decimal number: digits with an optional point, at least one
  digit before or after it, and an optional exponent. \<open>None\<close> is \<open>ValueError\<close>.
\<close>

fun to_ascii :: "ustr \<Rightarrow> ustr" where
  "to_ascii [] = []"
| "to_ascii (c # s) =
     (if c < 128 then c # to_ascii s
      else if isspace c then 32 # to_ascii s
      else case decimal_value c of
             Some d \<Rightarrow> (48 + d) # to_ascii s
           | None \<Rightarrow> [63])"

definition ascii_space :: "nat \<Rightarrow> bool" where
  "ascii_space c = ((9 \<le> c \<and> c \<le> 13) \<or> c = 32)"

definition is_d :: "nat \<Rightarrow> bool" where
  "is_d c = (48 \<le> c \<and> c \<le> 57)"

fun strip_underscores :: "nat \<Rightarrow> ustr \<Rightarrow> ustr option" where
  "strip_underscores prev [] = (if prev = 95 then None else Some [])"
| "strip_underscores prev (c # s) =
     (if c = 95 then (if is_d prev then strip_underscores c s else None)
      else if prev = 95 \<and> \<not> is_d c then None
      else map_option ((#) c) (strip_underscores c s))"

definition digits_nat :: "ustr \<Rightarrow> nat" where
  "digits_nat ds = foldl (\<lambda>a c. 10 * a + (c - 48)) 0 ds"

definition parse_exponent :: "ustr \<Rightarrow> int option" where
  "parse_exponent r =
     (case r of
        [] \<Rightarrow> Some 0
      | c # r' \<Rightarrow>
          if c = 101 \<or> c = 69 then
            (let ds = (if take 1 r' = [45] \<or> take 1 r' = [43] then drop 1 r' else r')
             in if ds \<noteq> [] \<and> list_all is_d ds
                then Some (if take 1 r' = [45] then - int (digits_nat ds) else int (digits_nat ds))
                else None)
          else None)"

definition parse_float_ascii :: "ustr \<Rightarrow> pyfloat option" where
  "parse_float_ascii w =
     (let neg = (take 1 w = [45]);
          body = (if take 1 w = [45] \<or> take 1 w = [43] then drop 1 w else w);
          low = str_lower_ascii body
      in if low = u ''inf'' \<or> low = u ''infinity'' then Some (if neg then NegInf else PosInf)
         else if low = u ''nan'' then Some NaN
         else (let ip = takeWhile is_d body;
                   r1 = dropWhile is_d body;
                   has_dot = (take 1 r1 = [46]);
                   fp = (if has_dot then takeWhile is_d (drop 1 r1) else []);
                   r2 = (if has_dot then dropWhile is_d (drop 1 r1) else r1)
               in if ip @ fp = [] then None
                  else case parse_exponent r2 of
                         None \<Rightarrow> None
                       | Some ex \<Rightarrow>
                           (let x = to_double (of_nat (digits_nat (ip @ fp))
                                                * pow10 (ex - int (length fp)))
                            in Some (if neg then float_neg x else x))))"

definition py_float :: "ustr \<Rightarrow> pyfloat option" where
  "py_float s =
     (let t = rev (dropWhile ascii_space (rev (dropWhile ascii_space (to_ascii s))))
      in case strip_underscores 0 t of
           None \<Rightarrow> None
         | Some w \<Rightarrow> parse_float_ascii w)"

section \<open>Sorting\<close>

text \<open>
  \<open>sorted(xs, key=k, reverse=r)\<close> is stable: elements with equal keys keep their order,
  also with \<open>reverse=True\<close>, where the list is reversed before and after an ascending
  sort. It compares keys with \<open><\<close> only. Where \<open><\<close> orders the keys (no key is
  not-a-number) its result is the stable insertion sort below; with a not-a-number key
  the order CPython returns depends on how its merge sort runs, which is not modelled,
  and the theorems on sorting exclude such keys.
\<close>

fun insort_by :: "('k \<Rightarrow> 'k \<Rightarrow> bool) \<Rightarrow> ('a \<Rightarrow> 'k) \<Rightarrow> 'a \<Rightarrow> 'a list \<Rightarrow> 'a list" where
  "insort_by lt key x [] = [x]"
| "insort_by lt key x (y # ys) =
     (if lt (key y) (key x) then y # insort_by lt key x ys else x # y # ys)"

definition stable_sort :: "('k \<Rightarrow> 'k \<Rightarrow> bool) \<Rightarrow> ('a \<Rightarrow> 'k) \<Rightarrow> 'a list \<Rightarrow> 'a list" where
  "stable_sort lt key xs = foldr (insort_by lt key) xs []"

definition sorted_py ::
  "('k \<Rightarrow> 'k \<Rightarrow> bool) \<Rightarrow> ('a \<Rightarrow> 'k) \<Rightarrow> bool \<Rightarrow> 'a list \<Rightarrow> 'a list" where
  "sorted_py lt key reverse xs =
     (if reverse then rev (stable_sort lt key (rev xs)) else stable_sort lt key xs)"

text \<open>The order of two texts: by code points, a proper prefix first.\<close>

fun str_lt :: "ustr \<Rightarrow> ustr \<Rightarrow> bool" where
  "str_lt [] [] = False"
| "str_lt [] (y # ys) = True"
| "str_lt (x # xs) [] = False"
| "str_lt (x # xs) (y # ys) = (x < y \<or> (x = y \<and> str_lt xs ys))"

text \<open>
  \<^verbatim>\<open>
  def _apply_sort(rows, key: SortKey, headers_len: int):
      idx = max(0, min(headers_len - 1, key.field_1based - 1))
      def get_val(r):
          return r[idx] if idx < len(r) else ""
      def to_num(v):
          v = (v or "").strip().replace(",", ".")
          try:
              return float(v)
          except Exception:
              return float("-inf")
      reverse = (key.direction or "asc").lower() == "desc"
      typ = (key.type or "string").lower()
      ignore_case = bool(key.ignore_case)
      if typ == "numeric":
          return sorted(rows, key=lambda r: to_num(get_val(r)), reverse=reverse)
      if ignore_case:
          return sorted(rows, key=lambda r: get_val(r).casefold(), reverse=reverse)
      return sorted(rows, key=lambda r: get_val(r), reverse=reverse)
  \<close>
\<close>

definition sort_index :: "sort_key \<Rightarrow> int \<Rightarrow> nat" where
  "sort_index key headers_len = nat (max 0 (min (headers_len - 1) (field_1based key - 1)))"

definition get_val :: "nat \<Rightarrow> ustr list \<Rightarrow> ustr" where
  "get_val idx r = (if idx < length r then r ! idx else [])"

definition to_num :: "ustr \<Rightarrow> pyfloat" where
  "to_num v =
     (case py_float (str_replace [44] [46] (str_strip v)) of
        Some x \<Rightarrow> x
      | None \<Rightarrow> NegInf)"

definition apply_sort :: "pylib \<Rightarrow> ustr list list \<Rightarrow> sort_key \<Rightarrow> int \<Rightarrow> ustr list list" where
  "apply_sort L rows key headers_len =
     (let idx = sort_index key headers_len;
          reverse = (str_lower L (if direction key = [] then u ''asc'' else direction key)
                     = u ''desc'');
          typ = str_lower L (if sort_type key = [] then u ''string'' else sort_type key)
      in if typ = u ''numeric''
         then sorted_py float_lt (\<lambda>r. to_num (get_val idx r)) reverse rows
         else if ignore_case key
           then sorted_py str_lt (\<lambda>r. str_casefold L (get_val idx r)) reverse rows
         else sorted_py str_lt (get_val idx) reverse rows)"


section \<open>The table renderer\<close>

text \<open>
  \<^verbatim>\<open>
  def _normalize_preamble(preamble: str) -> str:
      if not preamble:
          return ""
      if not preamble.endswith("\n"):
          preamble += "\n"
      if not preamble.endswith("\n\n"):
          preamble += "\n"
      return preamble
  \<close>
\<close>

definition normalize_preamble :: "ustr \<Rightarrow> ustr" where
  "normalize_preamble preamble =
     (if preamble = [] then []
      else let p1 = (if \<not> endswith preamble [10] then preamble @ [10] else preamble)
           in if \<not> endswith p1 [10, 10] then p1 @ [10] else p1)"

text \<open>
  \<open>csv_text_to_markdown_table\<close> from the parsed table on: projection, sorting (\<open>if sort
  and headers\<close>; a \<open>SortKey\<close> instance is always true), line numbers, escaping, and the
  lines of the table.
  \<^verbatim>\<open>
      if add_line_numbers:
          headers = ["#"] + headers
          rows = [[str(i + 1)] + r for i, r in enumerate(rows)]
      headers_escaped = [_escape_md_cell(h) for h in headers]
      out: List[str] = []
      if table_style == "jira":
          out.append("|| " + " || ".join(headers_escaped) + " ||")
      else:
          out.append("| " + " | ".join(headers_escaped) + " |")
          out.append("|" + "|".join(["---"] * len(headers_escaped)) + "|")
      for row in rows:
          row_escaped = [_escape_md_cell(c) for c in row]
          if table_style == "jira":
              out.append("| " + " | ".join(row_escaped) + " |")
          else:
              out.append("| " + " | ".join(row_escaped) + " |")
      line_ending = "\r\n" if (eol or "lf").lower() == "crlf" else "\n"
      table = line_ending.join(out) + line_ending
      return _normalize_preamble(preamble) + table
  \<close>
\<close>

definition sort_rows ::
  "pylib \<Rightarrow> sort_key option \<Rightarrow> ustr list \<Rightarrow> ustr list list \<Rightarrow> ustr list list" where
  "sort_rows L sortk headers rows =
     (case sortk of
        None \<Rightarrow> rows
      | Some k \<Rightarrow> if headers \<noteq> [] then apply_sort L rows k (int (length headers)) else rows)"

definition table_lines :: "ustr \<Rightarrow> ustr list \<Rightarrow> ustr list list \<Rightarrow> ustr list" where
  "table_lines table_style headers rows =
     (let headers_escaped = map escape_md_cell headers
      in (if table_style = u ''jira''
          then [u ''|| '' @ str_join (u '' || '') headers_escaped @ u '' ||'']
          else [u ''| '' @ str_join (u '' | '') headers_escaped @ u '' |'',
                u ''|'' @ str_join (u ''|'') (replicate (length headers_escaped) (u ''---''))
                  @ u ''|''])
         @ map (\<lambda>row. u ''| '' @ str_join (u '' | '') (map escape_md_cell row) @ u '' |'') rows)"

definition line_ending :: "pylib \<Rightarrow> ustr \<Rightarrow> ustr" where
  "line_ending L eol =
     (if str_lower L (if eol = [] then u ''lf'' else eol) = u ''crlf'' then [13, 10] else [10])"

definition render_table ::
  "pylib \<Rightarrow> ustr list \<Rightarrow> ustr list list \<Rightarrow> ustr \<Rightarrow> nat list option \<Rightarrow> bool
     \<Rightarrow> sort_key option \<Rightarrow> ustr \<Rightarrow> ustr \<Rightarrow> ustr" where
  "render_table L parsed_headers parsed_rows preamble positions_1based add_line_numbers
       sortk eol table_style =
     (let (headers1, rows1) = apply_positions parsed_headers parsed_rows positions_1based;
          rows2 = sort_rows L sortk headers1 rows1;
          headers = (if add_line_numbers then u ''#'' # headers1 else headers1);
          rows = (if add_line_numbers
                  then map (\<lambda>(i, r). str_of_nat (i + 1) # r) (enumerate 0 rows2)
                  else rows2);
          out = table_lines table_style headers rows
      in normalize_preamble preamble @ str_join (line_ending L eol) out @ line_ending L eol)"

text \<open>
  The whole function: \<open>_parse_csv\<close>, then \<open>_parse_positions\<close>, then the rendering. The
  second component is \<open>csv.excel\<close> after the call.
\<close>

definition csv_text_to_markdown_table ::
  "pylib \<Rightarrow> dialect \<Rightarrow> ustr \<Rightarrow> ustr \<Rightarrow> csv_parse_options option \<Rightarrow> ustr option \<Rightarrow> bool
     \<Rightarrow> sort_key option \<Rightarrow> ustr \<Rightarrow> ustr \<Rightarrow> (py_error + ustr) \<times> dialect" where
  "csv_text_to_markdown_table L excel csv_text preamble parse positions add_line_numbers
       sortk eol table_style =
     (let opts = (case parse of None \<Rightarrow> default_parse_options | Some p \<Rightarrow> p);
          (parsed, excel') = parse_csv L excel csv_text opts
      in (case parsed of
            Inl e \<Rightarrow> Inl e
          | Inr (headers, rows) \<Rightarrow>
              (case parse_positions positions of
                 Inl e \<Rightarrow> Inl e
               | Inr ps \<Rightarrow>
                   Inr (render_table L headers rows preamble ps add_line_numbers sortk eol
                          table_style)),
          excel'))"

section \<open>The outline renderer\<close>

definition NOTEBOOKLM_MIN_FIELDS :: "ustr list" where
  "NOTEBOOKLM_MIN_FIELDS =
     [u ''Keyword'', u ''Country'', u ''Languages'', u ''Volume'', u ''Global volume'',
      u ''KD'', u ''Difficulty'', u ''Keyword difficulty'', u ''CPC'', u ''CPS'',
      u ''Traffic potential'', u ''Global traffic potential'', u ''SERP features'',
      u ''SERP Features'', u ''Current organic traffic'', u ''Previous organic traffic'',
      u ''Organic traffic change'', u ''Current position'', u ''Previous position'',
      u ''Current URL'', u ''Previous URL'', u ''Parent Keyword'', u ''Parent keyword'',
      u ''Last Update'', u ''Last update'', u ''First seen'', u ''Intents'', u ''Intent'']"

text \<open>
  \<^verbatim>\<open>
      header_map = {_clean_header(h).lower(): h for h in headers}
  \<close>
  A later header replaces an earlier one with the same key, so the map is that of the
  reversed association list.
\<close>

definition header_key :: "pylib \<Rightarrow> ustr \<Rightarrow> ustr" where
  "header_key L h = str_lower L (clean_header h)"

definition header_map :: "pylib \<Rightarrow> ustr list \<Rightarrow> (ustr \<rightharpoonup> ustr)" where
  "header_map L headers = map_of (rev (map (\<lambda>h. (header_key L h, h)) headers))"

text \<open>
  \<^verbatim>\<open>
      if detail.lower() == "full":
          fields = headers
      else:
          fields = [header_map[f.lower()] for f in NOTEBOOKLM_MIN_FIELDS if f.lower() in header_map]
          keyword_header_candidate = header_map.get("keyword")
          if (not fields) or (
              keyword_header_candidate in headers
              and all(h == keyword_header_candidate for h in fields)
          ):
              fields = headers[: min(len(headers), 8)]
  \<close>
\<close>

definition curated_fields :: "pylib \<Rightarrow> ustr list \<Rightarrow> ustr list" where
  "curated_fields L headers =
     concat (map (\<lambda>f. case header_map L headers (str_lower L f) of
                         Some h \<Rightarrow> [h]
                       | None \<Rightarrow> [])
               NOTEBOOKLM_MIN_FIELDS)"

definition only_keyword :: "pylib \<Rightarrow> ustr list \<Rightarrow> ustr list \<Rightarrow> bool" where
  "only_keyword L headers flds =
     (case header_map L headers (u ''keyword'') of
        None \<Rightarrow> False
      | Some k \<Rightarrow> k \<in> set headers \<and> list_all (\<lambda>h. h = k) flds)"

definition select_fields :: "pylib \<Rightarrow> ustr \<Rightarrow> ustr list \<Rightarrow> ustr list" where
  "select_fields L detail headers =
     (if str_lower L detail = u ''full'' then headers
      else let flds = curated_fields L headers
           in if flds = [] \<or> only_keyword L headers flds
              then take (min (length headers) 8) headers
              else flds)"

text \<open>
  \<^verbatim>\<open>
      keyword_key = "keyword"
      keyword_header = header_map.get(keyword_key)
      keyword_idx = headers.index(keyword_header) if keyword_header in headers else 0
  \<close>
\<close>

fun index_of :: "'a \<Rightarrow> 'a list \<Rightarrow> nat" where
  "index_of x [] = 0"
| "index_of x (y # ys) = (if x = y then 0 else Suc (index_of x ys))"

definition keyword_idx :: "pylib \<Rightarrow> ustr list \<Rightarrow> nat" where
  "keyword_idx L headers =
     (case header_map L headers (u ''keyword'') of
        None \<Rightarrow> 0
      | Some k \<Rightarrow> if k \<in> set headers then index_of k headers else 0)"

text \<open>
  One record. \<open>values[keyword_idx]\<close> raises \<open>IndexError\<close> when the header list is empty.
  \<^verbatim>\<open>
      for i, row in enumerate(rows, start=1):
          values = list(itertools.islice(itertools.chain(row, itertools.repeat("")), len(headers)))
          kw = _escape_md_cell(values[keyword_idx]).strip()
          if not kw:
              kw = f"Radek {i}"          # with the Czech letters U+0158, U+00E1
          out.append(f"### {kw}")
          row_by_header = {headers[j]: values[j] for j in range(len(headers))}
          for h in fields:
              if h == keyword_header:
                  continue
              v = _escape_md_cell(str(row_by_header.get(h, ""))).strip()
              if not v:
                  continue
              if v.startswith("http://") or v.startswith("https://"):
                  v = f"<{v}>"
              out.append(f"- **{h}**: {v}")
          out.append("")
  \<close>
\<close>

definition row_values :: "ustr list \<Rightarrow> ustr list \<Rightarrow> ustr list" where
  "row_values headers row = take (length headers) (row @ replicate (length headers) [])"

definition row_label :: ustr where
  "row_label = [0x158, 0xE1] @ u ''dek ''"

definition record_heading :: "nat \<Rightarrow> ustr \<Rightarrow> ustr" where
  "record_heading i cell =
     (let kw = str_strip (escape_md_cell cell)
      in u ''### '' @ (if kw = [] then row_label @ str_of_nat i else kw))"

definition bullet :: "ustr option \<Rightarrow> (ustr \<rightharpoonup> ustr) \<Rightarrow> ustr \<Rightarrow> ustr list" where
  "bullet keyword_header row_by_header h =
     (if Some h = keyword_header then []
      else let v = str_strip (escape_md_cell
                     (case row_by_header h of Some x \<Rightarrow> x | None \<Rightarrow> []))
           in if v = [] then []
              else [u ''- **'' @ h @ u ''**: ''
                    @ (if startswith v (u ''http://'') \<or> startswith v (u ''https://'')
                       then u ''<'' @ v @ u ''>'' else v)])"

definition record_block ::
  "pylib \<Rightarrow> ustr list \<Rightarrow> ustr list \<Rightarrow> nat \<Rightarrow> ustr list \<Rightarrow> ustr list" where
  "record_block L headers flds i row =
     (let values = row_values headers row
      in record_heading i (values ! keyword_idx L headers)
         # concat (map (bullet (header_map L headers (u ''keyword''))
                          (map_of (rev (zip headers values))))
                     flds)
         @ [[]])"

definition record_lines ::
  "pylib \<Rightarrow> ustr list \<Rightarrow> ustr list \<Rightarrow> nat \<Rightarrow> ustr list \<Rightarrow> py_error + ustr list" where
  "record_lines L headers flds i row =
     (if length (row_values headers row) \<le> keyword_idx L headers then Inl IndexError
      else Inr (record_block L headers flds i row))"

fun records_from ::
  "pylib \<Rightarrow> ustr list \<Rightarrow> ustr list \<Rightarrow> nat \<Rightarrow> ustr list list \<Rightarrow> py_error + ustr list" where
  "records_from L headers flds i [] = Inr []"
| "records_from L headers flds i (row # rows) =
     (case record_lines L headers flds i row of
        Inl e \<Rightarrow> Inl e
      | Inr ls \<Rightarrow>
          (case records_from L headers flds (Suc i) rows of
             Inl e \<Rightarrow> Inl e
           | Inr rest \<Rightarrow> Inr (ls @ rest)))"

text \<open>\<open>rows[:max_rows]\<close>; a negative bound counts from the end.\<close>

definition slice_to :: "int option \<Rightarrow> 'a list \<Rightarrow> 'a list" where
  "slice_to max_rows rows =
     (case max_rows of
        None \<Rightarrow> rows
      | Some m \<Rightarrow> if 0 \<le> m then take (nat m) rows else take (nat (int (length rows) + m)) rows)"

text \<open>
  \<open>csv_text_to_markdown_notebooklm\<close> from the parsed table on. The fixed lines are
  \<open>## Export (NotebookLM)\<close>, the number of rows, the mode, and the heading of the records.
\<close>

definition render_outline ::
  "pylib \<Rightarrow> ustr list \<Rightarrow> ustr list list \<Rightarrow> ustr \<Rightarrow> ustr \<Rightarrow> int option \<Rightarrow> nat list option
     \<Rightarrow> sort_key option \<Rightarrow> py_error + ustr" where
  "render_outline L parsed_headers parsed_rows preamble detail max_rows positions_1based sortk =
     (let (headers, rows1) = apply_positions parsed_headers parsed_rows positions_1based;
          rows2 = sort_rows L sortk headers rows1;
          flds = select_fields L detail headers;
          rows = slice_to max_rows rows2;
          intro = [u ''## Export (NotebookLM)'' @ [10],
                   u ''- **'' @ [0x158, 0xE1] @ u ''dk'' @ [0x16F] @ u ''**: ''
                     @ str_of_nat (length rows),
                   u ''- **Re'' @ [0x17E] @ u ''im**: ''
                     @ (if str_lower L detail = u ''full'' then u ''full'' else u ''minimal''),
                   [],
                   u ''## Z'' @ [0xE1] @ u ''znamy'' @ [10]]
      in case records_from L headers flds 1 rows of
           Inl e \<Rightarrow> Inl e
         | Inr body \<Rightarrow>
             Inr (normalize_preamble preamble @ str_rstrip (str_join [10] (intro @ body))
                  @ [10]))"

definition csv_text_to_markdown_notebooklm ::
  "pylib \<Rightarrow> dialect \<Rightarrow> ustr \<Rightarrow> ustr \<Rightarrow> ustr \<Rightarrow> int option \<Rightarrow> csv_parse_options option
     \<Rightarrow> ustr option \<Rightarrow> sort_key option \<Rightarrow> (py_error + ustr) \<times> dialect" where
  "csv_text_to_markdown_notebooklm L excel csv_text preamble detail max_rows parse positions
       sortk =
     (let opts = (case parse of None \<Rightarrow> default_parse_options | Some p \<Rightarrow> p);
          (parsed, excel') = parse_csv L excel csv_text opts
      in (case parsed of
            Inl e \<Rightarrow> Inl e
          | Inr (headers, rows) \<Rightarrow>
              (case parse_positions positions of
                 Inl e \<Rightarrow> Inl e
               | Inr ps \<Rightarrow> render_outline L headers rows preamble detail max_rows ps sortk),
          excel'))"

text \<open>
  A header matches the curated allowlist without regard to case when its key (the label
  cleaned and put in lower case) is the lower-case form of an entry of the list.
\<close>

definition matches_allowlist :: "pylib \<Rightarrow> ustr \<Rightarrow> bool" where
  "matches_allowlist L h = (header_key L h \<in> set (map (str_lower L) NOTEBOOKLM_MIN_FIELDS))"






section \<open>Properties of cell escaping\<close>

lemma replace_nul: "str_replace [0] [] v = filter (\<lambda>c. c \<noteq> 0) v"
  by (induction v) auto




section \<open>Properties of the decoder\<close>

lemma str_lower_auto: "str_lower L (str_strip (u ''auto'')) = u ''auto''"
  by (simp add: str_lower_def str_strip_def str_rstrip_def u_def isspace_def is_ascii_def
      str_lower_ascii_def ascii_lower_def)

text \<open>
  Claim C1. Decoding with the hint \<open>auto\<close> is claimed never to raise. A buffer that opens
  with the UTF-16 mark FF FE and then holds a single byte is decoded as UTF-16 outside
  every \<open>try\<close>, and the odd length raises \<open>UnicodeDecodeError\<close>.
\<close>

theorem decode_auto_raises_on_truncated_utf16:
  "decode_csv_bytes_with_encoding L [0xFF, 0xFE, 0x00] (u ''auto'') = Inl UnicodeDecodeError"
proof -
  have "decode_csv_bytes [0xFF, 0xFE, 0x00] = Inl UnicodeDecodeError"
    by (simp add: decode_csv_bytes_def startswith_def utf16_def raise_decode_def)
  moreover have "u ''auto'' \<noteq> []"
    by (simp add: u_def)
  ultimately show ?thesis
    by (simp add: decode_csv_bytes_with_encoding_def str_lower_auto)
qed

section \<open>Properties of the position list\<close>

lemma superscript_two: "parse_positions (Some [0xB2]) = Inl ValueError"
  by (simp add: parse_positions_def str_split_def str_strip_def str_rstrip_def isspace_def
      str_isdigit_def isdigit_cp_def decimal_value_def decimal_runs_def
      other_digit_ranges_def int_of_digits_def int_max_str_digits_def)

text \<open>
  Claim C5. Every position string is claimed to be parsed, with the tokens that are not
  numbers discarded, and the projection to return headers and rows. The token made of
  the superscript two (U+00B2) passes \<open>isdigit()\<close> and is then given to \<open>int()\<close>, which
  raises \<open>ValueError\<close>; so does either renderer called with that position string,
  whatever the text and the options.
\<close>

theorem positions_superscript_raises:
  "parse_positions (Some [0xB2]) = Inl ValueError
   \<and> (\<exists>e. fst (csv_text_to_markdown_table L excel csv_text preamble parse (Some [0xB2])
                add_line_numbers sortk eol table_style) = Inl e)
   \<and> (\<exists>e. fst (csv_text_to_markdown_notebooklm L excel csv_text preamble detail max_rows parse
                (Some [0xB2]) sortk) = Inl e)"
  by (simp add: superscript_two csv_text_to_markdown_table_def
      csv_text_to_markdown_notebooklm_def Let_def split: prod.split sum.split)

section \<open>Properties of the header derivation\<close>

lemma fold_max_Max: "fold max (map length (r # rs)) 0 = Max (set (map length (r # rs)))"
  using Max.set_eq_fold [of "length r" "map length rs"] by simp

text \<open>
  Claim C6, as the code has it. An empty row stream gives no headers and no rows. With
  the header flag, the first row becomes the header, each label with its NUL characters
  removed and then stripped of leading byte-order marks and of the surrounding white
  space, and the other rows are the data. Without the flag, the labels are \<open>Field 1\<close>,
  \<open>Field 2\<close>, ... up to the length of the longest row, and all rows are data.
\<close>

theorem split_header_cases:
  "split_header with_header [] = ([], [])
   \<and> split_header True (first # rest)
       = (map (\<lambda>h. strip_mark_and_space (filter (\<lambda>c. c \<noteq> 0) h)) first, rest)
   \<and> split_header False (first # rest)
       = (map (\<lambda>i. u ''Field '' @ str_of_nat (i + 1))
            [0..<Max (set (map length (first # rest)))],
          first # rest)
   \<and> split_header False [[a, b], [c]] = ([u ''Field 1'', u ''Field 2''], [[a, b], [c]])"
proof -
  have one: "[0..<2] = [0, 1]"
    by (simp add: upt_rec)
  show ?thesis
    unfolding split_header_def fold_max_Max
    by (simp add: clean_header_def strip_mark_and_space_def replace_nul u_def one)
qed

text \<open>
  Claim C6 as it is stated fails on a label that holds a NUL character: stripping the
  mark and the white space leaves \<open>a\0b\<close> as it is, and the header the code derives is
  \<open>ab\<close>.
\<close>

theorem split_header_drops_nul:
  "split_header True [[[97, 0, 98]]] = ([[97, 98]], [])
   \<and> strip_mark_and_space [97, 0, 98] = [97, 0, 98]"
  by (simp add: split_header_def clean_header_def strip_mark_and_space_def str_strip_def
      str_rstrip_def str_lstrip_chars_def isspace_def)

section \<open>Properties of the table renderer\<close>




section \<open>Properties of the field selection\<close>








lemmas literal_lower = u_def str_lower_def is_ascii_def str_lower_ascii_def ascii_lower_def

lemmas clean_defs = clean_header_def str_strip_def str_rstrip_def str_lstrip_chars_def
  isspace_def












lemmas outline_eval = select_fields_def curated_fields_def only_keyword_def header_map_def
  header_key_def matches_allowlist_def NOTEBOOKLM_MIN_FIELDS_def clean_defs literal_lower
  record_block_def row_values_def keyword_idx_def record_heading_def bullet_def
  escape_md_cell_def startswith_def



text \<open>
  What the statement of C8 above leaves out: a header with one of the keys that the
  allowlist holds in two spellings is found once for each spelling, so it is selected
  twice and its bullet is emitted twice.
\<close>

lemma twice_listed_header_selected_twice:
  "select_fields L (u ''minimal'') [u ''Keyword'', u ''SERP features'']
     = [u ''Keyword'', u ''SERP features'', u ''SERP features'']
   \<and> record_block L [u ''Keyword'', u ''SERP features'']
         [u ''Keyword'', u ''SERP features'', u ''SERP features''] 1 [u ''seo'', u ''x'']
       = [u ''### seo'', u ''- **SERP features**: x'', u ''- **SERP features**: x'', []]"
  by (simp add: outline_eval)

section \<open>Properties of the record heading\<close>












section \<open>Properties of the numeric sort\<close>




















section \<open>Properties of the decoding fallback\<close>

lemma byte_unat: "n < 256 \<Longrightarrow> unat (of_nat n :: 8 word) = n"
  by (simp add: unat_of_nat)

lemmas byte_cmp = word_less_nat_alt word_le_nat_alt word_unat_eq_iff cont_byte_def

lemma next1: "unat b0 < 0x80 \<Longrightarrow> utf8_next b0 rest = Decoded (unat b0) 0"
  by (simp add: utf8_next_def byte_cmp)

lemma next2:
  "unat b0 = 0xC0 + x \<Longrightarrow> 2 \<le> x \<Longrightarrow> x < 32 \<Longrightarrow> unat b1 = 0x80 + y \<Longrightarrow> y < 64 \<Longrightarrow>
   utf8_next b0 (b1 # rest) = Decoded (x * 64 + y) 1"
  by (simp add: utf8_next_def byte_cmp)

lemma next3:
  "unat b0 = 0xE0 + x \<Longrightarrow> x < 16 \<Longrightarrow> unat b1 = 0x80 + y \<Longrightarrow> y < 64 \<Longrightarrow>
   unat b2 = 0x80 + z \<Longrightarrow> z < 64 \<Longrightarrow> (x = 0 \<longrightarrow> 32 \<le> y) \<Longrightarrow> (x = 13 \<longrightarrow> y < 32) \<Longrightarrow>
   utf8_next b0 (b1 # b2 # rest) = Decoded (x * 4096 + y * 64 + z) 2"
  by (auto simp add: utf8_next_def byte_cmp)

lemma next4:
  "unat b0 = 0xF0 + x \<Longrightarrow> x < 5 \<Longrightarrow> unat b1 = 0x80 + y \<Longrightarrow> y < 64 \<Longrightarrow>
   unat b2 = 0x80 + z \<Longrightarrow> z < 64 \<Longrightarrow> unat b3 = 0x80 + w \<Longrightarrow> w < 64 \<Longrightarrow>
   (x = 0 \<longrightarrow> 16 \<le> y) \<Longrightarrow> (x = 4 \<longrightarrow> y < 16) \<Longrightarrow>
   utf8_next b0 (b1 # b2 # b3 # rest) = Decoded (x * 262144 + y * 4096 + z * 64 + w) 3"
  by (auto simp add: utf8_next_def byte_cmp)

lemma div4096: "(c::nat) div 4096 = c div 64 div 64"
  by (simp add: div_mult2_eq [symmetric])

lemma div262144: "(c::nat) div 262144 = c div 4096 div 64"
  by (simp add: div_mult2_eq [symmetric])

lemma split3: "c div 4096 * 4096 + c div 64 mod 64 * 64 + c mod 64 = (c::nat)"
proof -
  have "c div 64 div 64 * 64 + c div 64 mod 64 = c div 64"
    by (rule div_mult_mod_eq)
  moreover have "c div 64 * 64 + c mod 64 = c"
    by (rule div_mult_mod_eq)
  ultimately show ?thesis
    unfolding div4096 by linarith
qed

lemma split4:
  "c div 262144 * 262144 + c div 4096 mod 64 * 4096 + c div 64 mod 64 * 64 + c mod 64 = (c::nat)"
proof -
  have "c div 4096 div 64 * 64 + c div 4096 mod 64 = c div 4096"
    by (rule div_mult_mod_eq)
  then have "c div 262144 * 262144 + c div 4096 mod 64 * 4096 = c div 4096 * 4096"
    unfolding div262144 by linarith
  with split3 [of c] show ?thesis
    by linarith
qed

lemma strict_encoded_cp:
  assumes "scalar c"
  shows "utf8_strict (utf8_encode_cp c @ rest) = map_option ((#) c) (utf8_strict rest)"
proof -
  consider "c < 0x80" | "0x80 \<le> c \<and> c < 0x800" | "0x800 \<le> c \<and> c < 0x10000"
    | "0x10000 \<le> c \<and> c < 0x110000"
    using assms unfolding scalar_def by linarith
  then show ?thesis
  proof cases
    case 1
    then have "unat (of_nat c :: 8 word) = c"
      by (simp add: byte_unat)
    with 1 next1 [of "of_nat c" rest] show ?thesis
      by (simp add: utf8_encode_cp_def)
  next
    case 2
    define x where "x = c div 64"
    define y where "y = c mod 64"
    have c: "x * 64 + y = c"
      unfolding x_def y_def by (rule div_mult_mod_eq)
    have y: "y < 64"
      unfolding y_def by simp
    from 2 c y have x: "2 \<le> x" "x < 32"
      by linarith+
    have u1: "unat (of_nat (0xC0 + x) :: 8 word) = 0xC0 + x"
      by (rule byte_unat) (use x in linarith)
    have u2: "unat (of_nat (0x80 + y) :: 8 word) = 0x80 + y"
      by (rule byte_unat) (use y in linarith)
    have "utf8_next (of_nat (0xC0 + x)) (of_nat (0x80 + y) # rest) = Decoded (x * 64 + y) 1"
      using u1 x u2 y by (rule next2)
    with 2 c show ?thesis
      by (simp add: utf8_encode_cp_def x_def [symmetric] y_def [symmetric]
          del: of_nat_add of_nat_numeral)
  next
    case 3
    define x where "x = c div 4096"
    define y where "y = c div 64 mod 64"
    define z where "z = c mod 64"
    have c: "x * 4096 + y * 64 + z = c"
      unfolding x_def y_def z_def by (rule split3)
    have y: "y < 64" and z: "z < 64"
      unfolding y_def z_def by simp_all
    from 3 c y z have x: "x < 16"
      by linarith
    from 3 c y z have x0: "x = 0 \<longrightarrow> 32 \<le> y"
      by auto
    from assms have "\<not> (0xD800 \<le> c \<and> c < 0xE000)"
      by (simp add: scalar_def)
    with c y z have xd: "x = 13 \<longrightarrow> y < 32"
      by auto
    have u1: "unat (of_nat (0xE0 + x) :: 8 word) = 0xE0 + x"
      by (rule byte_unat) (use x in linarith)
    have u2: "unat (of_nat (0x80 + y) :: 8 word) = 0x80 + y"
      by (rule byte_unat) (use y in linarith)
    have u3: "unat (of_nat (0x80 + z) :: 8 word) = 0x80 + z"
      by (rule byte_unat) (use z in linarith)
    have "utf8_next (of_nat (0xE0 + x)) (of_nat (0x80 + y) # of_nat (0x80 + z) # rest)
            = Decoded (x * 4096 + y * 64 + z) 2"
      using u1 x u2 y u3 z x0 xd by (rule next3)
    with 3 c show ?thesis
      by (simp add: utf8_encode_cp_def x_def [symmetric] y_def [symmetric] z_def [symmetric]
          del: of_nat_add of_nat_numeral)
  next
    case 4
    define x where "x = c div 262144"
    define y where "y = c div 4096 mod 64"
    define z where "z = c div 64 mod 64"
    define w where "w = c mod 64"
    have c: "x * 262144 + y * 4096 + z * 64 + w = c"
      unfolding x_def y_def z_def w_def by (rule split4)
    have y: "y < 64" and z: "z < 64" and w: "w < 64"
      unfolding y_def z_def w_def by simp_all
    from 4 c y z w have x: "x < 5"
      by linarith
    from 4 c y z w have x0: "x = 0 \<longrightarrow> 16 \<le> y"
      by auto
    from 4 c y z w have x4: "x = 4 \<longrightarrow> y < 16"
      by auto
    have u1: "unat (of_nat (0xF0 + x) :: 8 word) = 0xF0 + x"
      by (rule byte_unat) (use x in linarith)
    have u2: "unat (of_nat (0x80 + y) :: 8 word) = 0x80 + y"
      by (rule byte_unat) (use y in linarith)
    have u3: "unat (of_nat (0x80 + z) :: 8 word) = 0x80 + z"
      by (rule byte_unat) (use z in linarith)
    have u4: "unat (of_nat (0x80 + w) :: 8 word) = 0x80 + w"
      by (rule byte_unat) (use w in linarith)
    have "utf8_next (of_nat (0xF0 + x))
            (of_nat (0x80 + y) # of_nat (0x80 + z) # of_nat (0x80 + w) # rest)
            = Decoded (x * 262144 + y * 4096 + z * 64 + w) 3"
      using u1 x u2 y u3 z u4 w x0 x4 by (rule next4)
    with 4 c show ?thesis
      by (simp add: utf8_encode_cp_def x_def [symmetric] y_def [symmetric] z_def [symmetric]
          w_def [symmetric] del: of_nat_add of_nat_numeral)
  qed
qed

lemma strict_encoded: "list_all scalar t \<Longrightarrow> utf8_strict (utf8_encode t) = Some t"
  by (induction t) (simp_all add: utf8_encode_def strict_encoded_cp)

lemma invalid_lead_byte: "\<not> b < 0xF5 \<Longrightarrow> utf8_next b bs = Invalid 0"
  by (simp add: utf8_next_def word_less_nat_alt)

lemma strict_lead_byte: "utf8_strict (b # bs) = Some t \<Longrightarrow> b < 0xF5"
  using invalid_lead_byte [of b bs] by (cases "b < 0xF5") simp_all

lemma strict_mark:
  "utf8_strict (0xEF # 0xBB # 0xBF # rest) = map_option ((#) 0xFEFF) (utf8_strict rest)"
  by (simp add: utf8_next_def cont_byte_def)

lemma valid_utf8_no_utf16_mark:
  assumes "utf8_strict raw = Some t"
  shows "\<not> startswith raw [0xFF, 0xFE] \<and> \<not> startswith raw [0xFE, 0xFF]"
proof (cases raw)
  case Nil
  then show ?thesis by (simp add: startswith_def)
next
  case (Cons b bs)
  with assms strict_lead_byte [of b bs t] have "b < 0xF5" by simp
  then have "b \<noteq> 0xFF \<and> b \<noteq> 0xFE" by auto
  with Cons show ?thesis by (auto simp add: startswith_def)
qed

lemma valid_utf8_sig:
  assumes "utf8_strict raw = Some t" and "take 1 t \<noteq> [0xFEFF]"
  shows "utf8_sig raw = Some t"
proof (cases "startswith raw [0xEF, 0xBB, 0xBF]")
  case False
  with assms show ?thesis by (simp add: utf8_sig_def)
next
  case True
  then have "raw = 0xEF # 0xBB # 0xBF # drop 3 raw"
    by (metis append_take_drop_id startswith_def length_Cons list.size(3) append_Cons append_Nil
        numeral_3_eq_3)
  with assms(1) strict_mark [of "drop 3 raw"]
  have "map_option ((#) 0xFEFF) (utf8_strict (drop 3 raw)) = Some t"
    by metis
  then have "take 1 t = [0xFEFF]" by auto
  with assms(2) show ?thesis by simp
qed

text \<open>
  Claim C3, as the code has it. A buffer that starts with a UTF-16 byte-order mark of
  either endianness is decoded as UTF-16 (and raises where that fails). Any other buffer
  gives a text: the UTF-8 decoding with a UTF-8 mark stripped if it succeeds and has no
  NUL; the UTF-16 decoding if the UTF-8 text has a NUL and the buffer decodes as UTF-16;
  otherwise the cp1250 decoding, and if that fails the UTF-8 decoding with replacement.
  A valid UTF-8 buffer, the encoding of a text \<open>t\<close> of scalar values, decodes to \<open>t\<close>
  when \<open>t\<close> has no NUL and does not begin with the mark U+FEFF.
\<close>

theorem decode_csv_bytes_fallback:
  assumes "list_all scalar t" and "0 \<notin> set t" and "take 1 t \<noteq> [0xFEFF]"
  shows "decode_csv_bytes (utf8_encode t) = Inr t
         \<and> decode_csv_bytes raw
             = (if startswith raw [0xFF, 0xFE] \<or> startswith raw [0xFE, 0xFF]
                then raise_decode (utf16 raw)
                else Inr (case utf8_sig raw of
                            Some text \<Rightarrow>
                              if 0 \<in> set text
                              then (case utf16 raw of
                                      Some t' \<Rightarrow> t'
                                    | None \<Rightarrow> central_european_fallback raw)
                              else text
                          | None \<Rightarrow> central_european_fallback raw))
         \<and> central_european_fallback raw
             = (case cp1250 raw of Some t' \<Rightarrow> t' | None \<Rightarrow> utf8_lossy raw)"
proof -
  have s: "utf8_strict (utf8_encode t) = Some t"
    using assms(1) by (rule strict_encoded)
  have "decode_csv_bytes (utf8_encode t) = Inr t"
    using valid_utf8_no_utf16_mark [OF s] valid_utf8_sig [OF s assms(3)] assms(2)
    by (simp add: decode_csv_bytes_def)
  moreover have "decode_csv_bytes raw
             = (if startswith raw [0xFF, 0xFE] \<or> startswith raw [0xFE, 0xFF]
                then raise_decode (utf16 raw)
                else Inr (case utf8_sig raw of
                            Some text \<Rightarrow>
                              if 0 \<in> set text
                              then (case utf16 raw of
                                      Some t' \<Rightarrow> t'
                                    | None \<Rightarrow> central_european_fallback raw)
                              else text
                          | None \<Rightarrow> central_european_fallback raw))"
    by (simp add: decode_csv_bytes_def split: option.split)
  ultimately show ?thesis
    by (simp add: central_european_fallback_def)
qed

text \<open>
  The statement of C3 at the text of the single letter U+0159, whose UTF-8 encoding is
  C5 99.
\<close>

theorem decode_csv_bytes_fallback_witness:
  "list_all scalar [0x159] \<and> 0 \<notin> set [0x159 :: nat] \<and> take 1 [0x159 :: nat] \<noteq> [0xFEFF]
   \<and> utf8_encode [0x159] = [0xC5, 0x99]
   \<and> decode_csv_bytes (utf8_encode [0x159]) = Inr [0x159]"
proof -
  have a: "list_all scalar [0x159]"
    by (simp add: scalar_def)
  have b: "0 \<notin> set [0x159 :: nat]"
    by simp
  have c: "take 1 [0x159 :: nat] \<noteq> [0xFEFF]"
    by simp
  have d: "utf8_encode [0x159] = [0xC5, 0x99]"
    by (simp add: utf8_encode_def utf8_encode_cp_def)
  from decode_csv_bytes_fallback [OF a b c] a b c d show ?thesis
    by blast
qed

text \<open>
  Claim C3 as it is stated fails on a text with a NUL. The valid UTF-8 buffer 61 00 has
  no byte-order mark and encodes the two characters \<open>a\<close>, NUL; it is decoded again as
  UTF-16 and gives the single letter \<open>a\<close>. The buffer 61 00 62 has a NUL too, but is not
  decoded as UTF-16, which fails on its odd length: it comes out of the cp1250 step.
\<close>

theorem decode_nul_text_not_round_trip:
  "list_all scalar [0x61, 0] \<and> utf8_encode [0x61, 0] = [0x61, 0]
   \<and> decode_csv_bytes [0x61, 0] = Inr [0x61]
   \<and> utf8_sig [0x61, 0, 0x62] = Some [0x61, 0, 0x62]
   \<and> utf16 [0x61, 0, 0x62] = None
   \<and> decode_csv_bytes [0x61, 0, 0x62] = Inr [0x61, 0, 0x62]"
  by (simp add: scalar_def utf8_encode_def utf8_encode_cp_def decode_csv_bytes_def
      startswith_def utf8_sig_def utf8_next_def utf16_def central_european_fallback_def
      cp1250_char_def)

section \<open>Properties of the parse stage\<close>

lemma two_lines_stream: "stream_lines two_lines = [u ''a;b'' @ [10], u ''c'' @ [10]]"
  by (simp add: stream_lines_def two_lines_def u_def)

lemma two_lines_normalized:
  "str_replace [13] [10] (str_replace [13, 10] [10] two_lines) = two_lines"
  by (simp add: two_lines_def u_def)

lemma default_quoting:
  "set_quoting default_parse_options d
     = d\<lparr>dl_quotechar := [34], dl_quoting := QUOTE_MINIMAL, dl_doublequote := True\<rparr>"
  by (simp add: set_quoting_def default_parse_options_def u_def)

lemma semicolon_call:
  "snd (parse_csv L excel_default other semicolon_options)
     = excel_default\<lparr>dl_delimiter := [59]\<rparr>"
  by (simp add: parse_csv_def choose_dialect_def resolve_delimiter_def semicolon_options_def
      default_parse_options_def set_quoting_def excel_default_def u_def Let_def
      split: prod.split)

lemma auto_call:
  assumes "sniff L two_lines = None"
    and "dl_quotechar e = [34]" and "dl_quoting e = QUOTE_MINIMAL" and "dl_doublequote e"
    and "csv_reader L e [u ''a;b'' @ [10], u ''c'' @ [10]] = Inr (first # rest)"
  shows "fst (parse_csv L e two_lines default_parse_options)
           = Inr (map clean_header first, rest)"
proof -
  have t: "take 4096 two_lines = two_lines"
    by (simp add: two_lines_def u_def)
  have q: "set_quoting default_parse_options e = e"
    using assms(2-4) by (simp add: default_quoting)
  have d: "resolve_delimiter (delimiter default_parse_options) = u ''auto''"
    by (simp add: resolve_delimiter_def default_parse_options_def u_def)
  have c: "choose_dialect L e two_lines default_parse_options = (e, e)"
    using assms(1) by (simp add: choose_dialect_def d t q)
  have k: "tokenize L e two_lines = Inr (first # rest)"
    using assms(5) by (simp add: tokenize_def two_lines_stream)
  have h: "has_header default_parse_options"
    by (simp add: default_parse_options_def)
  have sk: "skip_limit default_parse_options (first # rest) = first # rest"
    by (simp add: skip_limit_def default_parse_options_def)
  show ?thesis
    by (simp add: parse_csv_def c two_lines_normalized k h sk split_header_def)
qed

lemma clean_ab:
  "clean_header (u ''a;b'') = u ''a;b'' \<and> clean_header (u ''a'') = u ''a''
   \<and> clean_header (u ''b'') = u ''b''"
  by (simp add: clean_header_def str_strip_def str_rstrip_def str_lstrip_chars_def
      isspace_def u_def)

text \<open>
  Claim C2. The parse stage is claimed to keep no state across calls. A call with an
  explicit delimiter assigns it to the shared class \<open>csv.excel\<close>, and a later call with
  the delimiter \<open>auto\<close> whose sniffing fails reads with that class. With a library whose
  sniffer finds no delimiter in the two lines \<open>a;b\<close>, \<open>c\<close> and whose reader cuts them at
  the delimiter of the dialect, as Python's do: parsed first, the text has the one
  header \<open>a;b\<close>; parsed with the same arguments after a call with the delimiter \<open>;\<close> on
  any text, it has the two headers \<open>a\<close>, \<open>b\<close>.
\<close>

theorem parse_csv_keeps_earlier_delimiter:
  assumes "sniff L two_lines = None"
    and "csv_reader L excel_default [u ''a;b'' @ [10], u ''c'' @ [10]]
           = Inr [[u ''a;b''], [u ''c'']]"
    and "csv_reader L (excel_default\<lparr>dl_delimiter := [59]\<rparr>)
           [u ''a;b'' @ [10], u ''c'' @ [10]]
           = Inr [[u ''a'', u ''b''], [u ''c'']]"
  shows "fst (parse_csv L excel_default two_lines default_parse_options)
           = Inr ([u ''a;b''], [[u ''c'']])
         \<and> fst (parse_csv L (snd (parse_csv L excel_default other semicolon_options))
                  two_lines default_parse_options)
             = Inr ([u ''a'', u ''b''], [[u ''c'']])"
proof -
  have "fst (parse_csv L excel_default two_lines default_parse_options)
          = Inr ([u ''a;b''], [[u ''c'']])"
    using auto_call [OF assms(1) _ _ _ assms(2)] clean_ab
    by (simp add: excel_default_def)
  moreover have "fst (parse_csv L (excel_default\<lparr>dl_delimiter := [59]\<rparr>) two_lines
                        default_parse_options)
          = Inr ([u ''a'', u ''b''], [[u ''c'']])"
    using auto_call [OF assms(1) _ _ _ assms(3)] clean_ab
    by (simp add: excel_default_def)
  ultimately show ?thesis
    by (simp add: semicolon_call)
qed

text \<open>The statement of C2 for the library that cuts lines at the delimiter.\<close>

theorem parse_csv_keeps_earlier_delimiter_witness:
  "sniff plain_lib two_lines = None
   \<and> csv_reader plain_lib excel_default [u ''a;b'' @ [10], u ''c'' @ [10]]
       = Inr [[u ''a;b''], [u ''c'']]
   \<and> csv_reader plain_lib (excel_default\<lparr>dl_delimiter := [59]\<rparr>)
         [u ''a;b'' @ [10], u ''c'' @ [10]]
       = Inr [[u ''a'', u ''b''], [u ''c'']]
   \<and> fst (parse_csv plain_lib excel_default two_lines default_parse_options)
       = Inr ([u ''a;b''], [[u ''c'']])
   \<and> fst (parse_csv plain_lib (snd (parse_csv plain_lib excel_default [] semicolon_options))
            two_lines default_parse_options)
       = Inr ([u ''a'', u ''b''], [[u ''c'']])"
proof -
  have a: "sniff plain_lib two_lines = None"
    by (simp add: plain_lib_def)
  have b: "csv_reader plain_lib excel_default [u ''a;b'' @ [10], u ''c'' @ [10]]
             = Inr [[u ''a;b''], [u ''c'']]"
    by (simp add: plain_lib_def plain_reader_def excel_default_def str_split_def u_def)
  have c: "csv_reader plain_lib (excel_default\<lparr>dl_delimiter := [59]\<rparr>)
             [u ''a;b'' @ [10], u ''c'' @ [10]]
             = Inr [[u ''a'', u ''b''], [u ''c'']]"
    by (simp add: plain_lib_def plain_reader_def excel_default_def str_split_def u_def)
  from parse_csv_keeps_earlier_delimiter [OF a b c, of "[]"] a b c show ?thesis
    by blast
qed

end
